theory Spec2Isabelle
  imports Main "HOL-Library.Sublist" "HOL-Library.Word" "HOL-Library.Monad_Syntax"
begin

section \<open>The fibonacci worker of \<open>rpc_server_behind_nat.js\<close>\<close>

subsection \<open>JavaScript numbers\<close>

text \<open>
  Every number of the program is a JavaScript Number, an IEEE 754 double. The program starts
  from the integers 0 and 1 and only adds, subtracts and compares; given an integer length,
  every number it handles is an integer, an infinity or NaN. A Number is modelled as such:
  \<open>Finite x\<close> is the double whose value is the integer \<open>x\<close>. Numbers with a fractional
  part are not represented.
\<close>

datatype number = Finite int | PosInfinity | NegInfinity | NaN

text \<open>
  The doubles of a magnitude from \<open>2 ^ (52 + e)\<close> up to \<open>2 ^ (53 + e)\<close> are the multiples
  of \<open>2 ^ e\<close>. For a magnitude \<open>a\<close> of at least \<open>2 ^ 53\<close>, \<open>spacing_exponent a\<close> is
  that \<open>e\<close>.
\<close>

function spacing_exponent :: "int \<Rightarrow> nat" where
  "spacing_exponent a = (if a < 2 ^ 53 then 0 else Suc (spacing_exponent (a div 2)))"
  by pat_completeness auto
termination
  by (relation "measure nat") auto

declare spacing_exponent.simps [simp del]

text \<open>
  The result of an arithmetic operation is its exact result rounded to the nearest double,
  a tie going to the double with the even significand; beyond the largest double,
  \<open>2 ^ 1024 - 2 ^ 971\<close>, the result is an infinity. Every integer up to \<open>2 ^ 53\<close> in
  magnitude is a double.
\<close>

definition round_double :: "int \<Rightarrow> number" where
  "round_double x =
     (let a = \<bar>x\<bar> in
      if a \<le> 2 ^ 53 then Finite x
      else
        (let e = spacing_exponent a;
             q = a div 2 ^ e;
             r = a mod 2 ^ e;
             h = 2 ^ (e - 1);
             q' = (if h < r \<or> (r = h \<and> odd q) then q + 1 else q);
             m = q' * 2 ^ e
         in if 2 ^ 1024 \<le> m then (if x < 0 then NegInfinity else PosInfinity)
            else Finite (sgn x * m)))"

text \<open>The operator \<open>+\<close> on Numbers.\<close>

fun js_add :: "number \<Rightarrow> number \<Rightarrow> number" where
  "js_add NaN y = NaN"
| "js_add x NaN = NaN"
| "js_add (Finite a) (Finite b) = round_double (a + b)"
| "js_add PosInfinity NegInfinity = NaN"
| "js_add NegInfinity PosInfinity = NaN"
| "js_add PosInfinity y = PosInfinity"
| "js_add x PosInfinity = PosInfinity"
| "js_add NegInfinity y = NegInfinity"
| "js_add x NegInfinity = NegInfinity"

text \<open>The operator \<open>-\<close> on Numbers: \<open>x - y\<close> is \<open>x + (-y)\<close>.\<close>

fun js_neg :: "number \<Rightarrow> number" where
  "js_neg (Finite a) = Finite (- a)"
| "js_neg PosInfinity = NegInfinity"
| "js_neg NegInfinity = PosInfinity"
| "js_neg NaN = NaN"

definition js_sub :: "number \<Rightarrow> number \<Rightarrow> number" where
  "js_sub x y = js_add x (js_neg y)"

text \<open>The operators \<open><\<close> and \<open><=\<close> on Numbers; a comparison with NaN is false.\<close>

fun js_lt :: "number \<Rightarrow> number \<Rightarrow> bool" where
  "js_lt NaN y = False"
| "js_lt x NaN = False"
| "js_lt (Finite a) (Finite b) = (a < b)"
| "js_lt x NegInfinity = False"
| "js_lt NegInfinity y = True"
| "js_lt PosInfinity y = False"
| "js_lt x PosInfinity = True"

fun js_le :: "number \<Rightarrow> number \<Rightarrow> bool" where
  "js_le NaN y = False"
| "js_le x NaN = False"
| "js_le (Finite a) (Finite b) = (a \<le> b)"
| "js_le NegInfinity y = True"
| "js_le x PosInfinity = True"
| "js_le x y = False"

subsection \<open>The inner recursion \<open>_fibonacci\<close>\<close>

text \<open>
  \<^verbatim>\<open>function _fibonacci (n) {
    if (n <= 1) {
      return 1
    }
    return _fibonacci(n - 1) + _fibonacci(n - 2)
  }
  \<close>
  An identifier cannot start with an underscore here, so the inner function is called
  \<open>fibonacci_rec\<close>. Nothing in the code bounds the recursion, so the model does not assume
  that it ends: a call that never returns has the value \<open>None\<close>. In the engine such a call
  ends by exhausting the stack; the limits of the machine are not modelled.
\<close>

partial_function (option) fibonacci_rec :: "number \<Rightarrow> number option" where
  "fibonacci_rec n =
     (if js_le n (Finite 1) then Some (Finite 1)
      else do {
        a \<leftarrow> fibonacci_rec (js_sub n (Finite 1));
        b \<leftarrow> fibonacci_rec (js_sub n (Finite 2));
        Some (js_add a b)
      })"

subsection \<open>The loop of \<open>fibonacci\<close>\<close>

text \<open>
  \<^verbatim>\<open>function fibonacci (length) {
    const res = []
    ...
    for (let i = 0; i < length; i++) {
      res.push(_fibonacci(i))
    }
    return res
  }
  \<close>
  The loop is a recursion on the loop variable \<open>i\<close> and the array \<open>res\<close> built so far;
  \<open>i++\<close> is \<open>i + 1\<close> on Numbers. A loop that never ends has the value \<open>None\<close>.
\<close>

partial_function (option) fibonacci_loop ::
  "number \<Rightarrow> number \<Rightarrow> number list \<Rightarrow> number list option" where
  "fibonacci_loop i len res =
     (if js_lt i len then do {
        v \<leftarrow> fibonacci_rec i;
        fibonacci_loop (js_add i (Finite 1)) len (res @ [v])
      }
      else Some res)"

definition fibonacci :: "number \<Rightarrow> number list option" where
  "fibonacci len = fibonacci_loop (Finite 0) len []"

subsection \<open>The request handler\<close>

text \<open>
  \<^verbatim>\<open>
  service.on('request', (rid, key, payload, handler, cert, additional) => {
    console.log('received request, calculating & replying...')
    const result = fibonacci(payload.length)
    handler.reply(null, result)
  })
  \<close>
  The payload is the object \<open>{length: n}\<close>; its field is named \<open>payload_length\<close> because
  \<open>length\<close> is the list function. The handler's one effect besides logging is the call
  \<open>handler.reply(err, result)\<close>, which is the value returned by the model; \<open>null\<close> is
  \<open>None\<close>. When \<open>fibonacci\<close> does not return, the handler never replies.
\<close>

type_synonym request_id = "64 word"

record payload =
  payload_length :: number

datatype handler_reply = Reply (reply_err: "string option") (reply_result: "number list")

definition on_request :: "request_id \<Rightarrow> string \<Rightarrow> payload \<Rightarrow> handler_reply option" where
  "on_request rid key pl =
     do {
       result \<leftarrow> fibonacci (payload_length pl);
       Some (Reply None result)
     }"

subsection \<open>The punch subscriber of the consumer\<close>

text \<open>
  The consumer \<open>rpc_server_public.js\<close> of the article subscribes to the punch event:
  \<^verbatim>\<open>
  service.on('punch', (other) => {
    console.log('punch from', other)
    console.log('punching back...')
    service.punch(other)

    // establish connection and calculate data
    peer.request(other, { length: 10 }, { timeout: 10000 }, (err, data) => { ... })
  })
  \<close>
  and the worker starts its periodic driver with
  \<^verbatim>\<open>
  setInterval(function () {
    link.announce('fibonacci_worker', service.port, {})
    peer.punch('fibonacci_consumer')
  }, 1000)
  \<close>
  Both callbacks are sequences of calls into the packages \<open>grenache-nodejs-utp\<close> and
  \<open>grenache-nodejs-link\<close>. The calls are modelled in the next section; the callbacks
  themselves, \<open>on_punch\<close> and \<open>interval_callback\<close>, follow it.
\<close>

section \<open>The transport layer the example runs on\<close>

text \<open>
  The code of \<open>PeerRPCServer\<close>, \<open>PeerRPCClient\<close>, their transport and the link is not part
  of this repository: the example only calls it. The definitions of this section are
  therefore written from the specification (sections 3, 4, 6 and 7), one definition per
  operation it names.
\<close>

text \<open>Modelled from the spec: the address of a peer is its IP address and its UDP port.\<close>

type_synonym address = "string \<times> nat"

text \<open>Modelled from the spec: a datagram and every opaque field are byte strings.\<close>

type_synonym bytes = "8 word list"

text \<open>Modelled from the spec: metadata is a map from strings to bytes, kept in the order
  given; the example announces the empty one, \<open>{}\<close>.\<close>

type_synonym metadata = "(string \<times> bytes) list"

text \<open>Modelled from the spec: the data model of section 3 (PunchState), missing from the
  sources.\<close>

datatype punch_state = Unknown | PunchSent | PunchReceived | Established

text \<open>Modelled from the spec: the three UDP wire frames of section 6. A frame is the decoded
  datagram; the byte layout is not given, so the decoder is the parameter \<open>parse\<close> of the
  environment below.\<close>

datatype frame =
    PUNCH "bytes option"
  | REQUEST request_id string payload
  | REPLY request_id bool "string option" "number list"

text \<open>Modelled from the spec: what a PendingRequest's resultSink can be invoked with
  (success, application error, or timeout).\<close>

datatype completion = Success "number list" | HandlerError "string option" | RequestTimeout

text \<open>Modelled from the spec: the outward actions of a node, in the order they are
  performed: the two directory calls of section 6, a datagram sent on the UDP socket, and the
  \<open>peerReady\<close> event.\<close>

datatype effect =
    Announce string nat metadata
  | Lookup string
  | Send address frame
  | PeerReady address

text \<open>Modelled from the spec: PeerRecord of section 3.\<close>

record peer_record =
  serviceKey :: string
  peer_address :: address
  peer_metadata :: metadata
  expiresAt :: nat

text \<open>Modelled from the spec: PendingRequest of section 3. The requestId is the key of the
  pending-request table; the resultSink is the entry of \<open>sinks\<close> under the same key, which
  records every invocation.\<close>

record pending_request =
  deadline :: nat

text \<open>Modelled from the spec: the state of one node, namely the clock, the three shared
  structures of section 5 (PeerRecord cache, punch-state table, pending-request table), what
  each resultSink has received, and the actions performed so far.\<close>

record node =
  now :: nat
  peer_cache :: "peer_record list"
  punch_table :: "address \<Rightarrow> punch_state option"
  pending :: "request_id \<Rightarrow> pending_request option"
  sinks :: "request_id \<Rightarrow> completion list"
  effects :: "effect list"

text \<open>Modelled from the spec: what a node is configured with and what it cannot compute
  itself: the decoder of the wire format (\<open>None\<close> for a datagram that fails to parse), the
  registered request handler (\<open>None\<close> when it never completes), the directory (\<open>None\<close>
  is DirectoryUnavailable) and the lease of a PeerRecord.\<close>

record env =
  parse :: "bytes \<Rightarrow> frame option"
  handler :: "request_id \<Rightarrow> string \<Rightarrow> payload \<Rightarrow> handler_reply option"
  directory :: "string \<Rightarrow> (address \<times> metadata) list option"
  lease_ttl :: nat

text \<open>Modelled from the spec: a node that has just been started, with empty tables.\<close>

definition fresh_node :: node where
  "fresh_node = \<lparr>now = 0, peer_cache = [], punch_table = (\<lambda>a. None),
     pending = (\<lambda>r. None), sinks = (\<lambda>r. []), effects = []\<rparr>"

subsection \<open>RpcTransport\<close>

text \<open>Modelled from the spec: \<open>send(addr, frame)\<close>, a fire-and-forget datagram send.\<close>

definition send :: "node \<Rightarrow> address \<Rightarrow> frame \<Rightarrow> node" where
  "send s addr f = s\<lparr>effects := effects s @ [Send addr f]\<rparr>"

text \<open>Modelled from the spec: \<open>request(addr, payload, timeout)\<close> allocates a fresh
  requestId, stores a PendingRequest with deadline = now + timeout and sends the
  RequestEnvelope. The identifiers proposed by the generator are the list \<open>ids\<close>; one
  that collides with the active pending set is rejected and the next one is tried. The
  envelope's key is the argument \<open>key\<close>.\<close>

definition request ::
  "node \<Rightarrow> request_id list \<Rightarrow> address \<Rightarrow> string \<Rightarrow> payload \<Rightarrow> nat \<Rightarrow> node" where
  "request s ids addr key pl timeout =
     (case find (\<lambda>r. pending s r = None) ids of
        None \<Rightarrow> s
      | Some rid \<Rightarrow>
          send (s\<lparr>pending := (pending s)(rid \<mapsto> \<lparr>deadline = now s + timeout\<rparr>)\<rparr>)
            addr (REQUEST rid key pl))"

text \<open>Modelled from the spec: what a reply frame means for the caller, an application error
  when its errorFlag is set and the result otherwise.\<close>

definition completion_of :: "bool \<Rightarrow> string option \<Rightarrow> number list \<Rightarrow> completion" where
  "completion_of errorFlag errorInfo result =
     (if errorFlag then HandlerError errorInfo else Success result)"

text \<open>Modelled from the spec: a ReplyEnvelope is matched against the pending-request table
  by requestId; the first match invokes the resultSink and destroys the PendingRequest; a
  reply with no matching PendingRequest (DuplicateReply) is silently dropped.\<close>

definition accept_reply ::
  "node \<Rightarrow> request_id \<Rightarrow> bool \<Rightarrow> string option \<Rightarrow> number list \<Rightarrow> node" where
  "accept_reply s rid errorFlag errorInfo result =
     (case pending s rid of
        None \<Rightarrow> s
      | Some p \<Rightarrow>
          s\<lparr>pending := (pending s)(rid := None),
            sinks := (sinks s)(rid := sinks s rid @ [completion_of errorFlag errorInfo result])\<rparr>)"

text \<open>Modelled from the spec: the deadline of the PendingRequest of \<open>rid\<close> has elapsed
  when the clock, whose reading is \<open>t\<close>, has reached it.\<close>

definition expired :: "node \<Rightarrow> nat \<Rightarrow> request_id \<Rightarrow> bool" where
  "expired s t rid = (case pending s rid of None \<Rightarrow> False | Some p \<Rightarrow> deadline p \<le> t)"

text \<open>Modelled from the spec: on deadline the call fails with RequestTimeout and the
  PendingRequest is removed.\<close>

definition advance_clock :: "node \<Rightarrow> nat \<Rightarrow> node" where
  "advance_clock s t =
     s\<lparr>now := t,
       pending := (\<lambda>rid. if expired s t rid then None else pending s rid),
       sinks := (\<lambda>rid. if expired s t rid then sinks s rid @ [RequestTimeout]
                        else sinks s rid)\<rparr>"

text \<open>Modelled from the spec: a caller may cancel an in-flight request before completion,
  which removes its PendingRequest and discards any late reply; nothing is sent.\<close>

definition cancel :: "node \<Rightarrow> request_id \<Rightarrow> node" where
  "cancel s rid = s\<lparr>pending := (pending s)(rid := None)\<rparr>"

text \<open>Modelled from the spec: the resultSink of a PendingRequest is invoked exactly once, with a
  success, an application error or a timeout (section 3), and timeout is the sole
  cancellation primitive for requests (section 5). The resultSink of a request that the
  caller cancels while it is in flight is therefore invoked with RequestTimeout.\<close>

definition complete_cancelled :: "node \<Rightarrow> request_id \<Rightarrow> node" where
  "complete_cancelled s rid =
     (case pending s rid of
        None \<Rightarrow> s
      | Some p \<Rightarrow> s\<lparr>sinks := (sinks s)(rid := sinks s rid @ [RequestTimeout])\<rparr>)"

text \<open>Modelled from the spec: an incoming RequestEnvelope is dispatched to the registered
  handler; its result or error is wrapped into a ReplyEnvelope (errorFlag set exactly when
  there is an error) and sent back to the originating address. Nothing is sent for a
  handler that never completes.\<close>

definition handle_request ::
  "env \<Rightarrow> node \<Rightarrow> address \<Rightarrow> request_id \<Rightarrow> string \<Rightarrow> payload \<Rightarrow> node" where
  "handle_request e s src rid key pl =
     (case handler e rid key pl of
        None \<Rightarrow> s
      | Some (Reply err result) \<Rightarrow> send s src (REPLY rid (err \<noteq> None) err result))"

subsection \<open>PunchEngine\<close>

text \<open>Modelled from the spec: an address has no entry or is below Established.\<close>

definition below_established :: "punch_state option \<Rightarrow> bool" where
  "below_established st = (case st of Some Established \<Rightarrow> False | _ \<Rightarrow> True)"

text \<open>Modelled from the spec: on a well-formed punch datagram from \<open>b\<close> that has no entry or
  is below Established, pass through PunchReceived, immediately send a punch-back
  datagram to \<open>b\<close>, transition to Established and emit \<open>peerReady(b)\<close>.\<close>

definition receive_punch :: "node \<Rightarrow> address \<Rightarrow> node" where
  "receive_punch s b =
     (if below_established (punch_table s b) then
        (let s1 = s\<lparr>punch_table := (punch_table s)(b \<mapsto> PunchReceived)\<rparr>;
             s2 = send s1 b (PUNCH None);
             s3 = s2\<lparr>punch_table := (punch_table s2)(b \<mapsto> Established)\<rparr>
         in s3\<lparr>effects := effects s3 @ [PeerReady b]\<rparr>)
      else s)"

text \<open>Modelled from the spec: a candidate of the lookup result that is not yet Established
  is sent a punch datagram; an address that was absent or Unknown becomes PunchSent.\<close>

definition punch_candidate :: "address \<Rightarrow> node \<Rightarrow> node" where
  "punch_candidate a s =
     (if below_established (punch_table s a) then
        (send s a (PUNCH None))
          \<lparr>punch_table := (punch_table s)
             (a \<mapsto> (case punch_table s a of Some PunchReceived \<Rightarrow> PunchReceived | _ \<Rightarrow> PunchSent))\<rparr>
      else s)"

text \<open>Modelled from the spec: the punch step of a tick, over every candidate of the lookup
  result in turn.\<close>

definition punch_step :: "node \<Rightarrow> address list \<Rightarrow> node" where
  "punch_step s candidates = fold punch_candidate candidates s"

subsection \<open>RendezvousClient\<close>

text \<open>Modelled from the spec: \<open>announce(key, port, metadata)\<close> registers or refreshes the
  presence of this process in the directory. A failure (DirectoryUnavailable) is not
  fatal and leaves the node as it is.\<close>

definition link_announce :: "node \<Rightarrow> string \<Rightarrow> nat \<Rightarrow> metadata \<Rightarrow> node" where
  "link_announce s key port meta = s\<lparr>effects := effects s @ [Announce key port meta]\<rparr>"

text \<open>Modelled from the spec: a successful lookup creates the PeerRecord of each returned peer
  or refreshes the one with the same serviceKey, address and port.\<close>

definition refresh_record :: "string \<Rightarrow> nat \<Rightarrow> address \<times> metadata \<Rightarrow> peer_record list \<Rightarrow> peer_record list" where
  "refresh_record key expiry am cache =
     filter (\<lambda>r. \<not> (serviceKey r = key \<and> peer_address r = fst am)) cache
       @ [\<lparr>serviceKey = key, peer_address = fst am, peer_metadata = snd am, expiresAt = expiry\<rparr>]"

text \<open>Modelled from the spec: \<open>lookup(key)\<close> queries the directory; the records returned are
  coalesced by address and port and stored in the PeerRecord cache. The result is the
  candidate set, empty when the directory is unavailable.\<close>

definition link_lookup :: "env \<Rightarrow> node \<Rightarrow> string \<Rightarrow> node \<times> address list" where
  "link_lookup e s key =
     (let s1 = s\<lparr>effects := effects s @ [Lookup key]\<rparr> in
      case directory e key of
        None \<Rightarrow> (s1, [])
      | Some peers \<Rightarrow>
          (s1\<lparr>peer_cache := fold (refresh_record key (now s + lease_ttl e)) peers (peer_cache s1)\<rparr>,
           remdups (map fst peers)))"

text \<open>Modelled from the spec: \<open>peer.punch(key)\<close> resolves the serviceKey and feeds the
  resulting candidate set into the punch step.\<close>

definition peer_punch :: "env \<Rightarrow> node \<Rightarrow> string \<Rightarrow> node" where
  "peer_punch e s key = (case link_lookup e s key of (s1, candidates) \<Rightarrow> punch_step s1 candidates)"

subsection \<open>The dispatch loop\<close>

text \<open>Modelled from the spec: a datagram is classified by its frame type and routed to the
  punch handler, the pending-request table (reply) or the request handler (request); a
  datagram that fails to parse is dropped.\<close>

definition deliver_frame :: "env \<Rightarrow> node \<Rightarrow> address \<Rightarrow> frame \<Rightarrow> node" where
  "deliver_frame e s src f =
     (case f of
        PUNCH echo \<Rightarrow> receive_punch s src
      | REPLY rid errorFlag errorInfo result \<Rightarrow> accept_reply s rid errorFlag errorInfo result
      | REQUEST rid key pl \<Rightarrow> handle_request e s src rid key pl)"

definition dispatch :: "env \<Rightarrow> node \<Rightarrow> address \<Rightarrow> bytes \<Rightarrow> node" where
  "dispatch e s src dg = (case parse e dg of None \<Rightarrow> s | Some f \<Rightarrow> deliver_frame e s src f)"

section \<open>The callbacks of the example on the transport layer\<close>

text \<open>
  \<open>service.punch(other)\<close> sends a punch datagram to \<open>other\<close>; \<open>peer.request\<close> is
  \<open>request\<close> above. The requestIds the client generates and the key it puts into the
  envelope are not visible in the example; they are the parameters \<open>ids\<close> and \<open>key\<close>.
\<close>

definition on_punch :: "request_id list \<Rightarrow> string \<Rightarrow> node \<Rightarrow> address \<Rightarrow> node" where
  "on_punch ids key s other =
     (let s1 = send s other (PUNCH None);
          s2 = request s1 ids other key \<lparr>payload_length = Finite 10\<rparr> 10000
      in s2)"

definition interval_callback :: "env \<Rightarrow> nat \<Rightarrow> node \<Rightarrow> node" where
  "interval_callback e service_port s =
     (let s1 = link_announce s ''fibonacci_worker'' service_port [];
          s2 = peer_punch e s1 ''fibonacci_consumer''
      in s2)"

text \<open>
  \<open>setInterval(f, ms)\<close> in logical time: the timer is started at time \<open>t0\<close> and the
  \<open>k\<close>-th firing happens at \<open>t0 + k * ms\<close>. \<open>driver f ms t0 k s\<close> is the node after the
  first \<open>k\<close> firings, when nothing else happens to it; before each firing the clock is
  advanced to the firing time.
\<close>

definition fire_time :: "nat \<Rightarrow> nat \<Rightarrow> nat \<Rightarrow> nat" where
  "fire_time t0 ms k = t0 + k * ms"

fun driver :: "(node \<Rightarrow> node) \<Rightarrow> nat \<Rightarrow> nat \<Rightarrow> nat \<Rightarrow> node \<Rightarrow> node" where
  "driver f ms t0 0 s = s"
| "driver f ms t0 (Suc k) s = f (advance_clock (driver f ms t0 k s) (fire_time t0 ms (Suc k)))"

text \<open>The worker's driver: \<open>setInterval(function () { ... }, 1000)\<close>.\<close>

definition worker_loop :: "env \<Rightarrow> nat \<Rightarrow> nat \<Rightarrow> nat \<Rightarrow> node \<Rightarrow> node" where
  "worker_loop e service_port t0 k s = driver (interval_callback e service_port) 1000 t0 k s"

section \<open>Runs of a node\<close>

text \<open>Modelled from the spec: what can happen to a node (section 5). A datagram arrives from
  an address, time passes, the caller cancels a request, the caller issues a request, or the
  periodic driver fires.\<close>

datatype event =
    Datagram address bytes
  | Clock nat
  | Cancel request_id
  | Request "request_id list" address string payload nat
  | Tick nat

text \<open>Modelled from the spec: the three shared structures are accessed under mutual
  exclusion, so the activities of a node take effect one after the other. A cancellation
  completes the caller's request and removes its PendingRequest.\<close>

definition step :: "env \<Rightarrow> node \<Rightarrow> event \<Rightarrow> node" where
  "step e s ev =
     (case ev of
        Datagram src dg \<Rightarrow> dispatch e s src dg
      | Clock t \<Rightarrow> advance_clock s t
      | Cancel rid \<Rightarrow> cancel (complete_cancelled s rid) rid
      | Request ids addr key pl timeout \<Rightarrow> request s ids addr key pl timeout
      | Tick service_port \<Rightarrow> interval_callback e service_port s)"

text \<open>Modelled from the spec: a run is a sequence of events, processed as they arrive.\<close>

definition run :: "env \<Rightarrow> node \<Rightarrow> event list \<Rightarrow> node" where
  "run e s evs = foldl (step e) s evs"

subsection \<open>The life of one PendingRequest\<close>




text \<open>Modelled from the spec: a datagram that fails to parse against the wire format.\<close>

definition malformed :: "env \<Rightarrow> event \<Rightarrow> bool" where
  "malformed e ev = (case ev of Datagram src dg \<Rightarrow> parse e dg = None | _ \<Rightarrow> False)"

section \<open>One request and its reply\<close>

text \<open>Modelled from the spec: the frames a node has sent to an address, which the network
  hands to the node listening there.\<close>

fun frames_to :: "address \<Rightarrow> effect list \<Rightarrow> frame list" where
  "frames_to a [] = []"
| "frames_to a (Send b f # es) = (if b = a then f # frames_to a es else frames_to a es)"
| "frames_to a (x # es) = frames_to a es"

text \<open>Modelled from the spec: the end-to-end scenario of section 8. A caller with no other
  request in flight sends one request to a server; every datagram sent is delivered, the
  server's handler answers, and the result is what the caller's resultSink has received.\<close>

definition round_trip ::
  "env \<Rightarrow> address \<Rightarrow> address \<Rightarrow> request_id \<Rightarrow> string \<Rightarrow> payload \<Rightarrow> nat \<Rightarrow> completion list" where
  "round_trip e caller_addr server_addr rid key pl timeout =
     (let caller = request fresh_node [rid] server_addr key pl timeout;
          server = fold (\<lambda>f s. deliver_frame e s caller_addr f)
                     (frames_to server_addr (effects caller)) fresh_node;
          caller' = fold (\<lambda>f s. deliver_frame e s server_addr f)
                      (frames_to caller_addr (effects server)) caller
      in sinks caller' rid)"

section \<open>Properties of the fibonacci worker\<close>

subsection \<open>Arithmetic in the exact range\<close>

lemma round_double_exact: "\<bar>x\<bar> \<le> 2 ^ 53 \<Longrightarrow> round_double x = Finite x"
  by (simp add: round_double_def)

lemma js_sub_Finite: "js_sub (Finite a) (Finite b) = round_double (a - b)"
  by (simp add: js_sub_def)

lemma fibonacci_rec_base: "n \<le> 1 \<Longrightarrow> fibonacci_rec (Finite n) = Some (Finite 1)"
  by (subst fibonacci_rec.simps) simp

lemma fibonacci_rec_step:
  "1 < n \<Longrightarrow>
     fibonacci_rec (Finite n) =
       fibonacci_rec (round_double (n - 1)) \<bind>
         (\<lambda>a. fibonacci_rec (round_double (n - 2)) \<bind> (\<lambda>b. Some (js_add a b)))"
  by (subst fibonacci_rec.simps) (simp add: js_sub_Finite)

lemma fibonacci_rec_step_exact:
  assumes "1 < n" and "n \<le> 2 ^ 53"
  shows "fibonacci_rec (Finite n) =
       fibonacci_rec (Finite (n - 1)) \<bind>
         (\<lambda>a. fibonacci_rec (Finite (n - 2)) \<bind> (\<lambda>b. Some (js_add a b)))"
proof -
  from assms have "round_double (n - 1) = Finite (n - 1)" "round_double (n - 2) = Finite (n - 2)"
    by (simp_all add: round_double_exact)
  with fibonacci_rec_step [OF assms(1)] show ?thesis
    by simp
qed

lemma fibonacci_rec_returns_safe: "n \<le> 2 ^ 53 \<Longrightarrow> \<exists>v. fibonacci_rec (Finite n) = Some v"
proof (induction "nat n" arbitrary: n rule: less_induct)
  case less
  show ?case
  proof (cases "n \<le> 1")
    case True
    then show ?thesis by (simp add: fibonacci_rec_base)
  next
    case False
    then have n: "1 < n" by simp
    from n less.prems have "\<exists>v. fibonacci_rec (Finite (n - 1)) = Some v"
      by (intro less.hyps) simp_all
    moreover from n less.prems have "\<exists>v. fibonacci_rec (Finite (n - 2)) = Some v"
      by (intro less.hyps) simp_all
    ultimately show ?thesis
      using fibonacci_rec_step_exact [OF n less.prems] by auto
  qed
qed

subsection \<open>Where the arithmetic stops being exact\<close>









subsection \<open>The loop\<close>

lemma js_add_Finite_exact: "\<bar>a + b\<bar> \<le> 2 ^ 53 \<Longrightarrow> js_add (Finite a) (Finite b) = Finite (a + b)"
  by (simp add: round_double_exact)

lemma fibonacci_loop_stop: "\<not> js_lt i len \<Longrightarrow> fibonacci_loop i len res = Some res"
  by (subst fibonacci_loop.simps) simp

lemma fibonacci_loop_step:
  "js_lt i len \<Longrightarrow>
     fibonacci_loop i len res =
       fibonacci_rec i \<bind> (\<lambda>v. fibonacci_loop (js_add i (Finite 1)) len (res @ [v]))"
  by (subst fibonacci_loop.simps) simp

lemma fibonacci_loop_returns:
  assumes "0 \<le> i" and "i \<le> len" and "len \<le> 2 ^ 53"
  shows "\<exists>vs. fibonacci_loop (Finite i) (Finite len) res = Some (res @ vs) \<and>
              length vs = nat (len - i) \<and>
              (\<forall>k < length vs. fibonacci_rec (Finite (i + int k)) = Some (vs ! k))"
  using assms
proof (induction "nat (len - i)" arbitrary: i res)
  case 0
  then have "i = len" by simp
  then show ?case by (simp add: fibonacci_loop_stop)
next
  case (Suc d)
  then have lt: "i < len" by simp
  from Suc.prems lt obtain v where v: "fibonacci_rec (Finite i) = Some v"
    using fibonacci_rec_returns_safe [of i] by auto
  from Suc.prems lt have "\<bar>i + 1\<bar> \<le> 2 ^ 53"
    by linarith
  then have next_i: "js_add (Finite i) (Finite 1) = Finite (i + 1)"
    by (rule js_add_Finite_exact)
  from Suc.hyps(2) have d: "d = nat (len - (i + 1))" by simp
  from Suc.prems lt have "0 \<le> i + 1" "i + 1 \<le> len" by simp_all
  from Suc.hyps(1) [OF d this Suc.prems(3), of "res @ [v]"]
  obtain vs where vs: "fibonacci_loop (Finite (i + 1)) (Finite len) (res @ [v]) = Some ((res @ [v]) @ vs)"
    "length vs = nat (len - (i + 1))"
    "\<forall>k < length vs. fibonacci_rec (Finite (i + 1 + int k)) = Some (vs ! k)"
    by blast
  have "fibonacci_loop (Finite i) (Finite len) res = Some (res @ (v # vs))"
    using lt v next_i vs(1) by (simp add: fibonacci_loop_step)
  moreover have "length (v # vs) = nat (len - i)"
    using vs(2) lt by simp
  moreover have "\<forall>k < length (v # vs). fibonacci_rec (Finite (i + int k)) = Some ((v # vs) ! k)"
  proof (intro allI impI)
    fix k assume k: "k < length (v # vs)"
    show "fibonacci_rec (Finite (i + int k)) = Some ((v # vs) ! k)"
    proof (cases k)
      case 0
      with v show ?thesis by simp
    next
      case (Suc j)
      with k have "j < length vs" by simp
      with vs(3) have "fibonacci_rec (Finite (i + 1 + int j)) = Some (vs ! j)" by blast
      moreover have "i + 1 + int j = i + int k" using Suc by simp
      ultimately show ?thesis using Suc by simp
    qed
  qed
  ultimately show ?case by blast
qed

lemma fibonacci_returns:
  assumes "0 \<le> n" and "n \<le> 2 ^ 53"
  shows "\<exists>xs. fibonacci (Finite n) = Some xs \<and> length xs = nat n \<and>
              (\<forall>k < length xs. fibonacci_rec (Finite (int k)) = Some (xs ! k))"
  using fibonacci_loop_returns [of 0 n "[]"] assms by (simp add: fibonacci_def)

lemma fibonacci_nonpositive: "len \<le> 0 \<Longrightarrow> fibonacci (Finite len) = Some []"
  by (simp add: fibonacci_def fibonacci_loop_stop)





subsection \<open>The values while the sums are exact\<close>

text \<open>
  The pair \<open>(1, 1)\<close>, stepped \<open>k\<close> times by \<open>(a, b) \<mapsto> (b, a + b)\<close>, holds in its
  first component the integer the recursion computes for \<open>k\<close>, as long as no sum is
  rounded. That is the case up to index 77; the sum for index 78 is odd and lies above
  \<open>2 ^ 53\<close>.
\<close>

lemma pair_Suc:
  "((\<lambda>(a, b). (b, a + b)) ^^ Suc k) (1::int, 1::int) = (snd (((\<lambda>(a, b). (b, a + b)) ^^ k) (1::int, 1::int)), fst (((\<lambda>(a, b). (b, a + b)) ^^ k) (1::int, 1::int)) + snd (((\<lambda>(a, b). (b, a + b)) ^^ k) (1::int, 1::int)))"
proof -
  have "(case p of (a, b) \<Rightarrow> (b, a + b)) = (snd p, fst p + snd p)" for p :: "int \<times> int"
    by (cases p) simp
  then show ?thesis
    by (simp only: funpow.simps o_apply)
qed

lemma pair_positive: "0 < fst (((\<lambda>(a, b). (b, a + b)) ^^ k) (1::int, 1::int)) \<and> 0 < snd (((\<lambda>(a, b). (b, a + b)) ^^ k) (1::int, 1::int))"
proof (induction k)
  case 0
  then show ?case by simp
next
  case (Suc k)
  then show ?case unfolding pair_Suc by simp
qed

lemma pair_fst_step: "fst (((\<lambda>(a, b). (b, a + b)) ^^ Suc (Suc k)) (1::int, 1::int)) = fst (((\<lambda>(a, b). (b, a + b)) ^^ Suc k) (1::int, 1::int)) + fst (((\<lambda>(a, b). (b, a + b)) ^^ k) (1::int, 1::int))"
  unfolding pair_Suc by simp

lemma pair_fst_Suc_le: "fst (((\<lambda>(a, b). (b, a + b)) ^^ k) (1::int, 1::int)) \<le> fst (((\<lambda>(a, b). (b, a + b)) ^^ Suc k) (1::int, 1::int))"
proof (induction k)
  case 0
  then show ?case by simp
next
  case (Suc k)
  have "0 < fst (((\<lambda>(a, b). (b, a + b)) ^^ k) (1::int, 1::int))" using pair_positive [of k] by simp
  then show ?case unfolding pair_fst_step [of k] by simp
qed

lemma pair_fst_mono: "j \<le> k \<Longrightarrow> fst (((\<lambda>(a, b). (b, a + b)) ^^ j) (1::int, 1::int)) \<le> fst (((\<lambda>(a, b). (b, a + b)) ^^ k) (1::int, 1::int))"
proof (induction k)
  case 0
  then show ?case by simp
next
  case (Suc k)
  show ?case
  proof (cases "j = Suc k")
    case True
    then show ?thesis by simp
  next
    case False
    with Suc.prems have "j \<le> k" by simp
    with Suc.IH have "fst (((\<lambda>(a, b). (b, a + b)) ^^ j) (1::int, 1::int)) \<le> fst (((\<lambda>(a, b). (b, a + b)) ^^ k) (1::int, 1::int))" by simp
    also have "\<dots> \<le> fst (((\<lambda>(a, b). (b, a + b)) ^^ Suc k) (1::int, 1::int))" by (rule pair_fst_Suc_le)
    finally show ?thesis .
  qed
qed

lemma pair_77: "((\<lambda>(a, b). (b, a + b)) ^^ 77) (1::int, 1::int) = (8944394323791464, 14472334024676221)"
  by code_simp


lemma pair_fst_bound: "k \<le> 77 \<Longrightarrow> 0 < fst (((\<lambda>(a, b). (b, a + b)) ^^ k) (1::int, 1::int)) \<and> fst (((\<lambda>(a, b). (b, a + b)) ^^ k) (1::int, 1::int)) \<le> 2 ^ 53"
  using pair_fst_mono [of k 77] pair_positive [of k] by (simp add: pair_77)

lemma fibonacci_rec_exact:
  "k \<le> 77 \<Longrightarrow> fibonacci_rec (Finite (int k)) = Some (Finite (fst (((\<lambda>(a, b). (b, a + b)) ^^ k) (1::int, 1::int))))"
proof -
  define F where "F = (\<lambda>k. fst (((\<lambda>(a, b). (b, a + b)) ^^ k) (1::int, 1::int)))"
  have F0: "F 0 = 1" and F1: "F (Suc 0) = 1"
    by (simp_all add: F_def)
  have F_step: "F (Suc (Suc j)) = F (Suc j) + F j" for j
    unfolding F_def by (rule pair_fst_step)
  have F_bound: "\<bar>F k\<bar> \<le> 2 ^ 53" if "k \<le> 77" for k
    using pair_fst_bound [OF that] unfolding F_def by simp
  have "k \<le> 77 \<Longrightarrow> fibonacci_rec (Finite (int k)) = Some (Finite (F k))"
  proof (induction k rule: less_induct)
    case (less k)
    consider "k = 0" | "k = Suc 0" | j where "k = Suc (Suc j)"
      by (cases k rule: nat.exhaust [case_names zero suc], simp, rename_tac m, case_tac m, simp_all)
    then show ?case
    proof cases
      case 1
      then show ?thesis by (simp add: fibonacci_rec_base F0)
    next
      case 2
      then show ?thesis by (simp add: fibonacci_rec_base F1)
    next
      case 3
      from 3 less.prems have j: "j \<le> 77" "Suc j \<le> 77" by arith+
      have a: "fibonacci_rec (Finite (int (Suc j))) = Some (Finite (F (Suc j)))"
        by (rule less.IH) (use 3 j in simp_all)
      have b: "fibonacci_rec (Finite (int j)) = Some (Finite (F j))"
        by (rule less.IH) (use 3 j in simp_all)
      have range: "1 < int k" "int k \<le> 2 ^ 53"
        using 3 less.prems by simp_all
      have args: "int k - 1 = int (Suc j)" "int k - 2 = int j"
        using 3 by simp_all
      have "\<bar>F (Suc j) + F j\<bar> \<le> 2 ^ 53"
        using F_bound [OF less.prems] unfolding 3 F_step .
      then have "js_add (Finite (F (Suc j))) (Finite (F j)) = Finite (F k)"
        unfolding 3 F_step by (rule js_add_Finite_exact)
      with a b show ?thesis
        unfolding fibonacci_rec_step_exact [OF range] args by simp
    qed
  qed
  then show "k \<le> 77 \<Longrightarrow> fibonacci_rec (Finite (int k)) = Some (Finite (fst (((\<lambda>(a, b). (b, a + b)) ^^ k) (1::int, 1::int))))"
    unfolding F_def .
qed



lemma fibonacci_small:
  assumes "n \<le> 78"
  shows "fibonacci (Finite (int n)) = Some (map (\<lambda>k. Finite (fst (((\<lambda>(a, b). (b, a + b)) ^^ k) (1::int, 1::int)))) [0..<n])"
proof -
  from assms have "(0::int) \<le> int n" "int n \<le> 2 ^ 53"
    by simp_all
  from fibonacci_returns [OF this]
  obtain xs where xs: "fibonacci (Finite (int n)) = Some xs" "length xs = n"
    and el: "\<And>k. k < length xs \<Longrightarrow> fibonacci_rec (Finite (int k)) = Some (xs ! k)"
    by auto
  have "xs = map (\<lambda>k. Finite (fst (((\<lambda>(a, b). (b, a + b)) ^^ k) (1::int, 1::int)))) [0..<n]"
  proof (rule nth_equalityI)
    show "length xs = length (map (\<lambda>k. Finite (fst (((\<lambda>(a, b). (b, a + b)) ^^ k) (1::int, 1::int)))) [0..<n])"
      using xs(2) by simp
    fix k assume k: "k < length xs"
    with xs(2) assms have "k \<le> 77" by simp
    from fibonacci_rec_exact [OF this] el [OF k]
    have "xs ! k = Finite (fst (((\<lambda>(a, b). (b, a + b)) ^^ k) (1::int, 1::int)))"
      by (simp only: option.inject)
    with k xs(2) show "xs ! k = map (\<lambda>k. Finite (fst (((\<lambda>(a, b). (b, a + b)) ^^ k) (1::int, 1::int)))) [0..<n] ! k"
      by (simp only: nth_map_upt add_0 length_upt minus_nat.diff_0)
  qed
  with xs(1) show ?thesis by simp
qed

lemma first_ten_values:
  "map (\<lambda>k. Finite (fst (((\<lambda>(a, b). (b, a + b)) ^^ k) (1::int, 1::int)))) [0..<10] =
     [Finite 1, Finite 1, Finite 2, Finite 3, Finite 5, Finite 8, Finite 13, Finite 21,
      Finite 34, Finite 55]"
  by code_simp


lemma fibonacci_ten:
  "fibonacci (Finite 10) =
     Some [Finite 1, Finite 1, Finite 2, Finite 3, Finite 5, Finite 8, Finite 13, Finite 21,
      Finite 34, Finite 55]"
  using fibonacci_small [of 10] unfolding first_ten_values by simp


subsection \<open>A request answered by a handler\<close>

lemma round_trip_handler:
  assumes "handler e rid key pl = Some (Reply err result)"
  shows "round_trip e ca sa rid key pl t = [completion_of (err \<noteq> None) err result]"
  using assms
  by (simp add: round_trip_def request_def fresh_node_def send_def deliver_frame_def
        handle_request_def accept_reply_def)

lemma on_request_returns:
  "fibonacci len = Some result \<Longrightarrow>
     on_request rid key \<lparr>payload_length = len\<rparr> = Some (Reply None result)"
  by (simp add: on_request_def)

subsection \<open>The claims about the fibonacci worker\<close>

text \<open>
  C1. For the payload \<open>{length: 10}\<close> the function \<open>fibonacci\<close> returns
  \<open>[1,1,2,3,5,8,13,21,34,55]\<close>, the request handler replies with a null error and that
  list, and a caller whose request reaches a server running this handler has its
  resultSink invoked with exactly the success carrying that list.
\<close>

theorem fibonacci_ten_request:
  "fibonacci (Finite 10) =
     Some [Finite 1, Finite 1, Finite 2, Finite 3, Finite 5, Finite 8, Finite 13, Finite 21,
      Finite 34, Finite 55] \<and>
   on_request rid key \<lparr>payload_length = Finite 10\<rparr> =
     Some (Reply None [Finite 1, Finite 1, Finite 2, Finite 3, Finite 5, Finite 8, Finite 13, Finite 21,
      Finite 34, Finite 55]) \<and>
   round_trip (e\<lparr>handler := on_request\<rparr>) ca sa rid key \<lparr>payload_length = Finite 10\<rparr> 10000 =
     [Success [Finite 1, Finite 1, Finite 2, Finite 3, Finite 5, Finite 8, Finite 13, Finite 21,
      Finite 34, Finite 55]]"
proof -
  have reply: "on_request rid key \<lparr>payload_length = Finite 10\<rparr> =
     Some (Reply None [Finite 1, Finite 1, Finite 2, Finite 3, Finite 5, Finite 8, Finite 13, Finite 21,
      Finite 34, Finite 55])"
    using fibonacci_ten by (rule on_request_returns)
  then have "handler (e\<lparr>handler := on_request\<rparr>) rid key \<lparr>payload_length = Finite 10\<rparr> =
     Some (Reply None [Finite 1, Finite 1, Finite 2, Finite 3, Finite 5, Finite 8, Finite 13, Finite 21,
      Finite 34, Finite 55])"
    by simp
  from round_trip_handler [OF this] fibonacci_ten reply show ?thesis
    by (simp add: completion_of_def)
qed

text \<open>
  C2, as the code has it. For the payload \<open>{length: -1}\<close> the request handler raises no
  failure: it replies with a null error and the empty list, and the caller's request
  resolves to a success carrying the empty list, neither a failure nor a timeout.
\<close>

theorem handler_negative_length_replies_empty:
  "on_request rid key \<lparr>payload_length = Finite (- 1)\<rparr> = Some (Reply None []) \<and>
   round_trip (e\<lparr>handler := on_request\<rparr>) ca sa rid key \<lparr>payload_length = Finite (- 1)\<rparr> t =
     [Success []]"
proof -
  have "fibonacci (Finite (- 1)) = Some []"
    by (rule fibonacci_nonpositive) simp
  then have reply: "on_request rid key \<lparr>payload_length = Finite (- 1)\<rparr> = Some (Reply None [])"
    by (rule on_request_returns)
  then have "handler (e\<lparr>handler := on_request\<rparr>) rid key \<lparr>payload_length = Finite (- 1)\<rparr> =
     Some (Reply None [])"
    by simp
  from round_trip_handler [OF this] reply show ?thesis
    by (simp add: completion_of_def)
qed

text \<open>
  The claim as the specification states it, that the handler reports an application error
  for this payload, fails: the handler replies, and the error of its reply is null.
\<close>

theorem handler_negative_length_no_error:
  "map_option reply_err (on_request 0 ''fibonacci_worker'' \<lparr>payload_length = Finite (- 1)\<rparr>)
     = Some None"
proof -
  have "fibonacci (Finite (- 1)) = Some []"
    by (rule fibonacci_nonpositive) simp
  then show ?thesis
    by (simp add: on_request_def)
qed

text \<open>
  C8. For every integer length less than or equal to 0, \<open>fibonacci\<close> returns the empty
  list, and the request handler replies with a null error and an empty result.
\<close>

theorem fibonacci_nonpositive_empty:
  "len \<le> 0 \<Longrightarrow>
     fibonacci (Finite len) = Some [] \<and>
     on_request rid key \<lparr>payload_length = Finite len\<rparr> = Some (Reply None [])"
  by (simp add: on_request_def fibonacci_nonpositive)

theorem fibonacci_nonpositive_empty_witness:
  "(- 1::int) \<le> 0 \<and> fibonacci (Finite (- 1)) = Some [] \<and>
   on_request 7 ''fibonacci_worker'' \<lparr>payload_length = Finite (- 1)\<rparr> = Some (Reply None [])"
  using fibonacci_nonpositive_empty [of "- 1" 7 "''fibonacci_worker''"] by simp







section \<open>Properties of the transport layer\<close>

subsection \<open>What each operation leaves alone\<close>

lemma send_fields [simp]:
  "pending (send s a f) = pending s" "sinks (send s a f) = sinks s"
  "punch_table (send s a f) = punch_table s" "now (send s a f) = now s"
  "peer_cache (send s a f) = peer_cache s" "effects (send s a f) = effects s @ [Send a f]"
  by (simp_all add: send_def)

lemma receive_punch_requests [simp]:
  "pending (receive_punch s b) = pending s" "sinks (receive_punch s b) = sinks s"
  by (simp_all add: receive_punch_def)

lemma handle_request_requests [simp]:
  "pending (handle_request e s src rid key pl) = pending s"
  "sinks (handle_request e s src rid key pl) = sinks s"
  by (simp_all add: handle_request_def split: option.splits handler_reply.splits)

lemma punch_candidate_requests [simp]:
  "pending (punch_candidate a s) = pending s" "sinks (punch_candidate a s) = sinks s"
  by (simp_all add: punch_candidate_def)

lemma punch_step_requests [simp]:
  "pending (punch_step s cs) = pending s" "sinks (punch_step s cs) = sinks s"
  unfolding punch_step_def by (induction cs arbitrary: s) simp_all

lemma link_lookup_requests [simp]:
  "pending (fst (link_lookup e s key)) = pending s"
  "sinks (fst (link_lookup e s key)) = sinks s"
  by (simp_all add: link_lookup_def Let_def split: option.splits)

lemma peer_punch_eq:
  "peer_punch e s key = punch_step (fst (link_lookup e s key)) (snd (link_lookup e s key))"
  by (simp add: peer_punch_def split: prod.splits)

lemma interval_callback_requests [simp]:
  "pending (interval_callback e port s) = pending s"
  "sinks (interval_callback e port s) = sinks s"
  by (simp_all add: interval_callback_def peer_punch_eq link_announce_def Let_def)

lemma request_sinks [simp]: "sinks (request s ids addr key pl timeout) = sinks s"
  by (simp add: request_def split: option.splits)







subsection \<open>One step and a whole run, seen from one requestId\<close>


lemma run_Nil [simp]: "run e s [] = s"
  by (simp add: run_def)

lemma run_Cons [simp]: "run e s (ev # evs) = run e (step e s ev) evs"
  by (simp add: run_def)

lemma run_append: "run e s (evs @ evs') = run e (run e s evs) evs'"
  by (simp add: run_def)







lemma step_malformed: "parse e dg = None \<Longrightarrow> step e s (Datagram src dg) = s"
  by (simp add: step_def dispatch_def)

lemma run_without_malformed:
  "run e s (filter (\<lambda>ev. \<not> malformed e ev) evs) = run e s evs"
proof (induction evs arbitrary: s)
  case Nil
  then show ?case by simp
next
  case (Cons ev evs)
  show ?case
  proof (cases "malformed e ev")
    case True
    then obtain src dg where "ev = Datagram src dg" "parse e dg = None"
      by (cases ev) (simp_all add: malformed_def)
    with True Cons show ?thesis
      by (simp add: step_malformed)
  next
    case False
    with Cons show ?thesis by simp
  qed
qed

subsection \<open>The punch step and the periodic driver\<close>

lemma below_established_sent [simp]:
  "below_established (Some (case st of Some PunchReceived \<Rightarrow> PunchReceived | _ \<Rightarrow> PunchSent))"
  by (simp add: below_established_def split: option.splits punch_state.splits)

lemma punch_candidate_below:
  "below_established (punch_table (punch_candidate a s) b) = below_established (punch_table s b)"
  by (simp add: punch_candidate_def)

lemma punch_candidate_effects:
  "effects (punch_candidate a s) =
     effects s @ (if below_established (punch_table s a) then [Send a (PUNCH None)] else [])"
  by (simp add: punch_candidate_def)

lemma punch_candidate_now [simp]: "now (punch_candidate a s) = now s"
  by (simp add: punch_candidate_def)

lemma punch_step_now [simp]: "now (punch_step s cs) = now s"
  unfolding punch_step_def by (induction cs arbitrary: s) simp_all

lemma punch_step_effects:
  "effects (punch_step s cs) =
     effects s @ map (\<lambda>a. Send a (PUNCH None)) (filter (\<lambda>a. below_established (punch_table s a)) cs)"
  unfolding punch_step_def
proof (induction cs arbitrary: s)
  case Nil
  then show ?case by simp
next
  case (Cons a cs)
  show ?case
    by (simp add: Cons.IH punch_candidate_below punch_candidate_effects)
qed

lemma link_lookup_fields:
  "effects (fst (link_lookup e s key)) = effects s @ [Lookup key]"
  "punch_table (fst (link_lookup e s key)) = punch_table s"
  "now (fst (link_lookup e s key)) = now s"
  "snd (link_lookup e s key) =
     (case directory e key of None \<Rightarrow> [] | Some peers \<Rightarrow> remdups (map fst peers))"
  by (simp_all add: link_lookup_def Let_def split: option.splits)

lemma advance_clock_fields [simp]:
  "effects (advance_clock s t) = effects s" "punch_table (advance_clock s t) = punch_table s"
  "now (advance_clock s t) = t"
  by (simp_all add: advance_clock_def)

lemma interval_callback_now [simp]: "now (interval_callback e port s) = now s"
  by (simp add: interval_callback_def peer_punch_eq link_lookup_fields link_announce_def Let_def)

lemma interval_callback_effects:
  "effects (interval_callback e port s) =
     effects s @ [Announce ''fibonacci_worker'' port [], Lookup ''fibonacci_consumer'']
       @ map (\<lambda>a. Send a (PUNCH None))
           (filter (\<lambda>a. below_established (punch_table s a))
              (case directory e ''fibonacci_consumer'' of
                 None \<Rightarrow> [] | Some peers \<Rightarrow> remdups (map fst peers)))"
  by (simp add: interval_callback_def peer_punch_eq punch_step_effects link_lookup_fields
        link_announce_def Let_def)


subsection \<open>The claims about the transport layer\<close>







text \<open>
  C5. When a well-formed punch datagram arrives from an address \<open>b\<close> whose punch state is
  absent or below Established, the node sends a punch-back datagram to \<open>b\<close>, the state of
  \<open>b\<close> becomes Established and \<open>peerReady(b)\<close> is emitted, in this order and with nothing
  else changed. The punch subscriber of the example likewise starts by punching back to the
  sender.
\<close>

theorem punch_received:
  assumes "parse e dg = Some (PUNCH echo)" and "below_established (punch_table s b)"
  shows "dispatch e s b dg =
           s\<lparr>punch_table := (punch_table s)(b \<mapsto> Established),
             effects := effects s @ [Send b (PUNCH None), PeerReady b]\<rparr> \<and>
         prefix (effects s' @ [Send b (PUNCH None)]) (effects (on_punch ids key s' b))"
proof
  from assms show "dispatch e s b dg =
           s\<lparr>punch_table := (punch_table s)(b \<mapsto> Established),
             effects := effects s @ [Send b (PUNCH None), PeerReady b]\<rparr>"
    by (simp add: dispatch_def deliver_frame_def receive_punch_def send_def)
  show "prefix (effects s' @ [Send b (PUNCH None)]) (effects (on_punch ids key s' b))"
    by (simp add: on_punch_def request_def Let_def split: option.splits)
qed

theorem punch_received_witness:
  "parse \<lparr>parse = (\<lambda>dg. if dg = [0] then Some (PUNCH None) else None),
          handler = on_request, directory = (\<lambda>k. None), lease_ttl = 0\<rparr> [0] = Some (PUNCH None) \<and>
   below_established (punch_table fresh_node (''127.0.0.1'', 52217)) \<and>
   punch_table
     (dispatch \<lparr>parse = (\<lambda>dg. if dg = [0] then Some (PUNCH None) else None),
          handler = on_request, directory = (\<lambda>k. None), lease_ttl = 0\<rparr>
        fresh_node (''127.0.0.1'', 52217) [0]) (''127.0.0.1'', 52217) = Some Established \<and>
   effects
     (dispatch \<lparr>parse = (\<lambda>dg. if dg = [0] then Some (PUNCH None) else None),
          handler = on_request, directory = (\<lambda>k. None), lease_ttl = 0\<rparr>
        fresh_node (''127.0.0.1'', 52217) [0])
   = [Send (''127.0.0.1'', 52217) (PUNCH None), PeerReady (''127.0.0.1'', 52217)]"
proof -
  let ?e = "\<lparr>parse = (\<lambda>dg. if dg = [0] then Some (PUNCH None) else None),
          handler = on_request, directory = (\<lambda>k. None), lease_ttl = 0\<rparr>"
  let ?b = "(''127.0.0.1'', 52217 :: nat)"
  have punch: "parse ?e [0] = Some (PUNCH None)"
    by simp
  have below: "below_established (punch_table fresh_node ?b)"
    by (simp add: below_established_def fresh_node_def)
  from punch_received [OF punch below, of fresh_node "[]" "[]"]
  have "dispatch ?e fresh_node ?b [0] =
      fresh_node\<lparr>punch_table := (punch_table fresh_node)(?b \<mapsto> Established),
        effects := effects fresh_node @ [Send ?b (PUNCH None), PeerReady ?b]\<rparr>"
    by blast
  then show ?thesis
    using punch below by (simp add: fresh_node_def)
qed

text \<open>
  C6. The driver fires at a fixed interval \<open>ms\<close>, the worker's being 1000 milliseconds:
  the firing number \<open>k + 1\<close> happens at the time \<open>t0 + (k + 1) * ms\<close>. Every firing
  performs, in this order, the announce of the local service \<open>fibonacci_worker\<close>, the
  lookup of the service key of interest \<open>fibonacci_consumer\<close>, and the punch step: a punch
  datagram to each candidate of the lookup result that is not yet Established.
\<close>

theorem periodic_driver_tick:
  "now (driver (interval_callback e port) ms t0 (Suc k) s) = t0 + Suc k * ms \<and>
   now (worker_loop e port t0 (Suc k) s) = t0 + Suc k * 1000 \<and>
   effects (worker_loop e port t0 (Suc k) s) =
     effects (worker_loop e port t0 k s)
       @ [Announce ''fibonacci_worker'' port [], Lookup ''fibonacci_consumer'']
       @ map (\<lambda>a. Send a (PUNCH None))
           (filter (\<lambda>a. below_established (punch_table (worker_loop e port t0 k s) a))
              (case directory e ''fibonacci_consumer'' of
                 None \<Rightarrow> [] | Some peers \<Rightarrow> remdups (map fst peers)))"
  by (simp add: interval_callback_effects fire_time_def worker_loop_def)

text \<open>
  C7. A datagram that fails to parse is dropped: the node, with its PeerRecord cache, its
  punch-state table, its pending-request table, every resultSink and the actions performed,
  is exactly what it was, and a run with the datagram in it ends in the same node as the run
  without it; so does a run from which every malformed datagram is taken out.
\<close>

theorem malformed_datagram_dropped:
  assumes "parse e dg = None"
  shows "dispatch e s src dg = s \<and>
         run e s (evs @ Datagram src dg # evs') = run e s (evs @ evs') \<and>
         run e s (filter (\<lambda>ev. \<not> malformed e ev) evs) = run e s evs"
  using assms by (simp add: dispatch_def run_append step_malformed run_without_malformed)

theorem malformed_datagram_dropped_witness:
  "parse \<lparr>parse = (\<lambda>dg. if dg = [2] then Some (REPLY 1 False None [Finite 1, Finite 1, Finite 2]) else None),
       handler = on_request, directory = (\<lambda>k. None), lease_ttl = 0\<rparr> [9] = None \<and>
   dispatch \<lparr>parse = (\<lambda>dg. if dg = [2] then Some (REPLY 1 False None [Finite 1, Finite 1, Finite 2]) else None),
       handler = on_request, directory = (\<lambda>k. None), lease_ttl = 0\<rparr>
     (request fresh_node [1] (''10.0.0.2'', 4000) ''fibonacci_worker''
        \<lparr>payload_length = Finite 10\<rparr> 10000) (''10.0.0.2'', 4000) [9]
   = (request fresh_node [1] (''10.0.0.2'', 4000) ''fibonacci_worker''
        \<lparr>payload_length = Finite 10\<rparr> 10000) \<and>
   run \<lparr>parse = (\<lambda>dg. if dg = [2] then Some (REPLY 1 False None [Finite 1, Finite 1, Finite 2]) else None),
       handler = on_request, directory = (\<lambda>k. None), lease_ttl = 0\<rparr>
     (request fresh_node [1] (''10.0.0.2'', 4000) ''fibonacci_worker''
        \<lparr>payload_length = Finite 10\<rparr> 10000)
     ([Clock 1] @ Datagram (''10.0.0.2'', 4000) [9] # [Clock 2])
   = run \<lparr>parse = (\<lambda>dg. if dg = [2] then Some (REPLY 1 False None [Finite 1, Finite 1, Finite 2]) else None),
       handler = on_request, directory = (\<lambda>k. None), lease_ttl = 0\<rparr>
       (request fresh_node [1] (''10.0.0.2'', 4000) ''fibonacci_worker''
        \<lparr>payload_length = Finite 10\<rparr> 10000)
       ([Clock 1] @ [Clock 2])"
proof -
  let ?e = "\<lparr>parse = (\<lambda>dg. if dg = [2] then Some (REPLY 1 False None [Finite 1, Finite 1, Finite 2]) else None),
       handler = on_request, directory = (\<lambda>k. None), lease_ttl = 0\<rparr>"
  have bad: "parse ?e [9] = None"
    by simp
  from malformed_datagram_dropped [OF bad] bad show ?thesis
    by blast
qed

end
